theory Spec2Isabelle
  imports Main
begin

section \<open>Python values, keyword defaults and output streams\<close>

text \<open>
  The scripts under \<^verbatim>\<open>Instance/\<close> are glue around the compute client library. The
  library objects (operation handle, instances client) are collaborators: what they return
  is a parameter of the model, what the scripts do with it is modelled from the source.

  A Python \<^verbatim>\<open>str\<close> is a \<^typ>\<open>string\<close>; a character is read as a code point below 256.
\<close>

text \<open>
  Attributes of the operation handle have no declared type in the source. They are only
  tested for truthiness and formatted by an f-string, so they are values of a small
  dynamic type: \<^verbatim>\<open>None\<close>, an \<^verbatim>\<open>int\<close> or a \<^verbatim>\<open>str\<close>.
\<close>

datatype pyval = PyNone | PyInt int | PyStr string

text \<open>Python truthiness: \<^verbatim>\<open>None\<close>, \<^verbatim>\<open>0\<close> and \<^verbatim>\<open>""\<close> are false.\<close>

fun truthy_val :: "pyval \<Rightarrow> bool" where
  "truthy_val PyNone = False"
| "truthy_val (PyInt i) = (i \<noteq> 0)"
| "truthy_val (PyStr s) = (s \<noteq> [])"

text \<open>Truthiness of an optional sequence (a \<^verbatim>\<open>str\<close> or a \<^verbatim>\<open>list\<close> that may be \<^verbatim>\<open>None\<close>).\<close>

fun truthy :: "'a list option \<Rightarrow> bool" where
  "truthy None = False"
| "truthy (Some xs) = (xs \<noteq> [])"

text \<open>Decimal digits of a natural number, as \<^verbatim>\<open>str\<close> prints them.\<close>

definition digit_char :: "nat \<Rightarrow> char" where
  "digit_char d = ''0123456789'' ! d"

fun str_nat :: "nat \<Rightarrow> string" where
  "str_nat n = (if n < 10 then [digit_char n] else str_nat (n div 10) @ [digit_char (n mod 10)])"

declare str_nat.simps [simp del]

definition str_int :: "int \<Rightarrow> string" where
  "str_int i = (if i < 0 then CHR ''-'' # str_nat (nat (- i)) else str_nat (nat i))"

text \<open>What \<^verbatim>\<open>{value}\<close> inside an f-string renders.\<close>

fun str :: "pyval \<Rightarrow> string" where
  "str PyNone = ''None''"
| "str (PyInt i) = str_int i"
| "str (PyStr s) = s"

text \<open>
  A parameter with a default value: the caller either omits the argument or gives it.
\<close>

datatype 'a kwarg = Omitted | Given 'a

fun kwarg_value :: "'a \<Rightarrow> 'a kwarg \<Rightarrow> 'a" where
  "kwarg_value d Omitted = d"
| "kwarg_value d (Given x) = x"

text \<open>
  The output a run produces: one entry per \<^verbatim>\<open>print\<close> call on each stream (the text
  before the terminating newline), and the warnings raised through \<^verbatim>\<open>warnings.warn\<close>
  as (category, message).
\<close>

record io =
  stdout :: "string list"
  stderr :: "string list"
  warned :: "(string \<times> string) list"

definition io_empty :: io where
  "io_empty = \<lparr>stdout = [], stderr = [], warned = []\<rparr>"

definition print_out :: "string \<Rightarrow> io \<Rightarrow> io" where
  "print_out s w = w\<lparr>stdout := stdout w @ [s]\<rparr>"

definition print_err :: "string \<Rightarrow> io \<Rightarrow> io" where
  "print_err s w = w\<lparr>stderr := stderr w @ [s]\<rparr>"

definition warnings_warn :: "string \<Rightarrow> string \<Rightarrow> io \<Rightarrow> io" where
  "warnings_warn message category w = w\<lparr>warned := warned w @ [(category, message)]\<rparr>"

definition newline :: char where
  "newline = CHR 0x0A"

section \<open>The operation waiter\<close>

text \<open>
  The handle of a long-running operation, as \<^verbatim>\<open>wait_for_extended_operation\<close> reads it:
  \<^item> \<open>op_result\<close>: what \<^verbatim>\<open>operation.result(timeout=...)\<close> does, either raising an
    exception of the collaborator (a timeout, for one) or returning the payload;
  \<^item> \<open>error_code\<close>, \<open>error_message\<close>, \<open>op_name\<close>: the attributes of these names
    (\<^verbatim>\<open>operation.name\<close> for the last);
  \<^item> \<open>op_warnings\<close>: \<^verbatim>\<open>operation.warnings\<close>, each warning with a code and a message;
  \<^item> \<open>op_exception\<close>: what \<^verbatim>\<open>operation.exception()\<close> returns, \<^verbatim>\<open>None\<close> or an
    exception object.
\<close>

record op_warning =
  code :: pyval
  message :: pyval

record ('r, 'x) operation =
  op_result :: "int \<Rightarrow> 'x + 'r"
  error_code :: pyval
  error_message :: pyval
  op_name :: pyval
  op_warnings :: "op_warning list"
  op_exception :: "'x option"

text \<open>
  The exceptions that leave the scripts: one raised by the collaborator, or the
  \<^verbatim>\<open>RuntimeError\<close> the waiter builds around the error message.
\<close>

datatype 'x py_exception = Collaborator 'x | RuntimeError pyval

definition error_line :: "string \<Rightarrow> pyval \<Rightarrow> pyval \<Rightarrow> string" where
  "error_line verbose_name c m =
     ''Error during '' @ verbose_name @ '': [Code: '' @ str c @ '']: '' @ str m"

definition operation_id_line :: "pyval \<Rightarrow> string" where
  "operation_id_line n = ''Operation ID: '' @ str n"

definition warnings_header :: "string \<Rightarrow> string" where
  "warnings_header verbose_name = ''Warnings during '' @ verbose_name @ '':'' @ [newline]"

definition warning_line :: "op_warning \<Rightarrow> string" where
  "warning_line w = '' - '' @ str (code w) @ '': '' @ str (message w)"

text \<open>The \<^verbatim>\<open>for warning in operation.warnings\<close> loop.\<close>

fun print_warnings :: "op_warning list \<Rightarrow> io \<Rightarrow> io" where
  "print_warnings [] w = w"
| "print_warnings (x # xs) w = print_warnings xs (print_err (warning_line x) w)"

text \<open>
  \<^verbatim>\<open>wait_for_extended_operation(operation, verbose_name="operation", timeout=300)\<close>.
  The function is defined twice, in \<^verbatim>\<open>vm_instance_operation.py\<close> and in \<^verbatim>\<open>start.py\<close>, with
  the same body. It returns the payload or raises, and leaves the output it produced.
\<close>

definition wait_for_extended_operation ::
  "('r, 'x) operation \<Rightarrow> string kwarg \<Rightarrow> int kwarg \<Rightarrow> io \<Rightarrow> ('x py_exception + 'r) \<times> io" where
  "wait_for_extended_operation operation verbose_name_arg timeout_arg w =
     (let verbose_name = kwarg_value ''operation'' verbose_name_arg;
          timeout = kwarg_value 300 timeout_arg
      in case op_result operation timeout of
           Inl e \<Rightarrow> (Inl (Collaborator e), w)
         | Inr result \<Rightarrow>
             if truthy_val (error_code operation) then
               (let w1 = print_err (error_line verbose_name (error_code operation)
                                      (error_message operation)) w;
                    w2 = print_err (operation_id_line (op_name operation)) w1
                in (Inl (case op_exception operation of
                           Some e \<Rightarrow> Collaborator e
                         | None \<Rightarrow> RuntimeError (error_message operation)),
                    w2))
             else
               (let w1 = (if op_warnings operation \<noteq> []
                          then print_warnings (op_warnings operation)
                                 (print_err (warnings_header verbose_name) w)
                          else w)
                in (Inr result, w1)))"

section \<open>Regular expressions\<close>

text \<open>
  The pattern of \<^verbatim>\<open>create_instance\<close> uses literals, one character class, \<^verbatim>\<open>+\<close> and
  the anchors \<^verbatim>\<open>^\<close> and \<^verbatim>\<open>$\<close>. Patterns are matched by derivatives.
\<close>

datatype regex =
  Never
  | Empty
  | OneOf "char list"
  | Then regex regex
  | Or regex regex
  | Many regex

fun nullable :: "regex \<Rightarrow> bool" where
  "nullable Never = False"
| "nullable Empty = True"
| "nullable (OneOf cs) = False"
| "nullable (Then r s) = (nullable r \<and> nullable s)"
| "nullable (Or r s) = (nullable r \<or> nullable s)"
| "nullable (Many r) = True"

fun deriv :: "char \<Rightarrow> regex \<Rightarrow> regex" where
  "deriv c Never = Never"
| "deriv c Empty = Never"
| "deriv c (OneOf cs) = (if c \<in> set cs then Empty else Never)"
| "deriv c (Then r s) =
     (if nullable r then Or (Then (deriv c r) s) (deriv c s) else Then (deriv c r) s)"
| "deriv c (Or r s) = Or (deriv c r) (deriv c s)"
| "deriv c (Many r) = Then (deriv c r) (Many r)"

fun derivs :: "string \<Rightarrow> regex \<Rightarrow> regex" where
  "derivs [] r = r"
| "derivs (c # cs) r = derivs cs (deriv c r)"

definition fullmatch :: "regex \<Rightarrow> string \<Rightarrow> bool" where
  "fullmatch r s = nullable (derivs s r)"

fun literal :: "string \<Rightarrow> regex" where
  "literal [] = Empty"
| "literal (c # cs) = Then (OneOf [c]) (literal cs)"

definition plus :: "regex \<Rightarrow> regex" where
  "plus r = Then r (Many r)"

text \<open>
  \<^verbatim>\<open>re.match(p + "$", s)\<close>: the match starts at the beginning of \<open>s\<close>; \<^verbatim>\<open>$\<close> as the last
  item of the pattern holds at the end of \<open>s\<close> and also just before a newline that is the
  last character of \<open>s\<close>. So what \<open>p\<close> leaves is nothing or that one newline.
\<close>

definition re_match_dollar :: "regex \<Rightarrow> string \<Rightarrow> bool" where
  "re_match_dollar p s = fullmatch (Then p (Or Empty (OneOf [newline]))) s"

text \<open>
  The class \<^verbatim>\<open>[a-z\d\-]\<close>. Among the code points below 256 the decimal digits that
  \<^verbatim>\<open>\d\<close> accepts are \<^verbatim>\<open>0\<close> to \<^verbatim>\<open>9\<close>.
\<close>

definition name_chars :: "char list" where
  "name_chars = ''abcdefghijklmnopqrstuvwxyz'' @ ''0123456789'' @ ''-''"

text \<open>\<^verbatim>\<open>^zones/[a-z\d\-]+/machineTypes/[a-z\d\-]+\<close>, the pattern before its \<^verbatim>\<open>$\<close>.\<close>

definition machine_type_pattern :: regex where
  "machine_type_pattern =
     Then (literal ''zones/'')
       (Then (plus (OneOf name_chars))
         (Then (literal ''/machineTypes/'') (plus (OneOf name_chars))))"

text \<open>
  What a pattern denotes: the set of the strings it matches in full. The matcher above is
  checked against this set below.
\<close>

inductive_set repeat :: "string set \<Rightarrow> string set" for A :: "string set" where
  repeat_none: "[] \<in> repeat A"
| repeat_more: "u \<in> A \<Longrightarrow> v \<in> repeat A \<Longrightarrow> u @ v \<in> repeat A"

fun lang :: "regex \<Rightarrow> string set" where
  "lang Never = {}"
| "lang Empty = {[]}"
| "lang (OneOf cs) = {[c] | c. c \<in> set cs}"
| "lang (Then r s) = {u @ v | u v. u \<in> lang r \<and> v \<in> lang s}"
| "lang (Or r s) = lang r \<union> lang s"
| "lang (Many r) = repeat (lang r)"

section \<open>Disks\<close>

text \<open>
  Objects of the client library are records of the fields the scripts assign; a field that
  was never assigned is \<open>None\<close>.
\<close>

record attached_disk_initialize_params =
  source_image :: "string option"
  disk_size_gb :: "int option"
  disk_type :: "string option"

record attached_disk =
  initialize_params :: "attached_disk_initialize_params option"
  auto_delete :: "bool option"
  boot :: "bool option"

definition AttachedDiskInitializeParams :: attached_disk_initialize_params where
  "AttachedDiskInitializeParams = \<lparr>source_image = None, disk_size_gb = None, disk_type = None\<rparr>"

definition AttachedDisk :: attached_disk where
  "AttachedDisk = \<lparr>initialize_params = None, auto_delete = None, boot = None\<rparr>"

text \<open>
  \<^verbatim>\<open>disk_from_image(disk_type, disk_size_gb, boot, source_image, auto_delete=True)\<close>.
\<close>

definition disk_from_image ::
  "string \<Rightarrow> int \<Rightarrow> bool \<Rightarrow> string \<Rightarrow> bool kwarg \<Rightarrow> attached_disk" where
  "disk_from_image disk_type_v disk_size_gb_v boot_v source_image_v auto_delete_arg =
     (let auto_delete_v = kwarg_value True auto_delete_arg;
          boot_disk = AttachedDisk;
          params = AttachedDiskInitializeParams;
          params = params\<lparr>source_image := Some source_image_v\<rparr>;
          params = params\<lparr>disk_size_gb := Some disk_size_gb_v\<rparr>;
          params = params\<lparr>disk_type := Some disk_type_v\<rparr>;
          boot_disk = boot_disk\<lparr>initialize_params := Some params\<rparr>;
          boot_disk = boot_disk\<lparr>auto_delete := Some auto_delete_v\<rparr>;
          boot_disk = boot_disk\<lparr>boot := Some boot_v\<rparr>
      in boot_disk)"

section \<open>Lists of disks as objects\<close>

text \<open>
  A Python list is an object: two names may refer to the same list, and a change made
  through one is seen through the other. Lists of disks live in a store, and the
  \<^verbatim>\<open>disks\<close> parameter and the \<^verbatim>\<open>disks\<close> attribute hold references into it.
\<close>

type_synonym ref = nat

record store =
  cells :: "ref \<Rightarrow> attached_disk list option"
  next_ref :: ref

definition store_empty :: store where
  "store_empty = \<lparr>cells = (\<lambda>_. None), next_ref = 0\<rparr>"

text \<open>Evaluating a list display builds a new list object.\<close>

definition new_list :: "attached_disk list \<Rightarrow> store \<Rightarrow> ref \<times> store" where
  "new_list xs st =
     (next_ref st, st\<lparr>cells := (cells st)(next_ref st \<mapsto> xs), next_ref := Suc (next_ref st)\<rparr>)"

text \<open>\<^verbatim>\<open>xs.append(x)\<close> on the list behind a reference.\<close>

definition list_append :: "ref \<Rightarrow> attached_disk \<Rightarrow> store \<Rightarrow> store" where
  "list_append r x st =
     (case cells st r of
        None \<Rightarrow> st
      | Some xs \<Rightarrow> st\<lparr>cells := (cells st)(r \<mapsto> xs @ [x])\<rparr>)"

text \<open>
  Executing the \<^verbatim>\<open>def create_instance(...)\<close> statement evaluates the default of
  \<^verbatim>\<open>disks\<close>, a list display around one \<^verbatim>\<open>disk_from_image\<close> call, and keeps the
  reference with the function. The other defaults are immutable values.
\<close>

definition def_create_instance :: "store \<Rightarrow> ref \<times> store" where
  "def_create_instance st =
     new_list
       [disk_from_image ''zones/us-central1-c/diskTypes/pd-balanced'' 10 True
          ''projects/debian-cloud/global/images/debian-11-bullseye-v20230615'' Omitted]
       st"

section \<open>Building and creating an instance\<close>

record access_config =
  access_type :: "string option"
  access_name :: "string option"
  network_tier :: "string option"
  nat_i_p :: "string option"

record network_interface =
  network :: "string option"
  subnetwork :: "string option"
  network_i_p :: "string option"
  access_configs :: "access_config list"

record scheduling_config =
  preemptible :: "bool option"
  provisioning_model :: "string option"
  instance_termination_action :: "string option"

text \<open>
  The instance resource. \<open>disks\<close> is the reference that \<^verbatim>\<open>instance.disks = disks\<close>
  assigns; \<open>'a\<close> is the type of an accelerator configuration, which the scripts never
  look into.
\<close>

record 'a vm_instance =
  network_interfaces :: "network_interface list"
  inst_name :: "string option"
  disks :: "ref option"
  machine_type :: "string option"
  guest_accelerators :: "'a list option"
  scheduling :: "scheduling_config option"
  hostname :: "string option"
  deletion_protection :: "bool option"

record 'a insert_instance_request =
  req_zone :: "string option"
  req_project :: "string option"
  instance_resource :: "'a vm_instance option"

definition AccessConfig :: access_config where
  "AccessConfig = \<lparr>access_type = None, access_name = None, network_tier = None, nat_i_p = None\<rparr>"

definition NetworkInterface :: network_interface where
  "NetworkInterface =
     \<lparr>network = None, subnetwork = None, network_i_p = None, access_configs = []\<rparr>"

definition Scheduling :: scheduling_config where
  "Scheduling =
     \<lparr>preemptible = None, provisioning_model = None, instance_termination_action = None\<rparr>"

definition Instance :: "'a vm_instance" where
  "Instance =
     \<lparr>network_interfaces = [], inst_name = None, disks = None, machine_type = None,
      guest_accelerators = None, scheduling = None, hostname = None,
      deletion_protection = None\<rparr>"

definition InsertInstanceRequest :: "'a insert_instance_request" where
  "InsertInstanceRequest = \<lparr>req_zone = None, req_project = None, instance_resource = None\<rparr>"

text \<open>
  The instances client: \<^verbatim>\<open>insert(request=...)\<close> answers with an operation handle,
  \<^verbatim>\<open>get(project=..., zone=..., instance=...)\<close> with the service's description of the
  instance.
\<close>

record ('a, 'r, 'x, 'i) instances_client =
  client_insert :: "'a insert_instance_request \<Rightarrow> ('r, 'x) operation"
  client_get :: "string \<Rightarrow> string \<Rightarrow> string \<Rightarrow> 'i"

text \<open>
  The arguments of \<^verbatim>\<open>create_instance\<close> after \<^verbatim>\<open>project_id\<close>, \<^verbatim>\<open>zone\<close> and
  \<^verbatim>\<open>instance_name\<close>; all of them have a default.
\<close>

record 'a create_instance_args =
  disks_arg :: "ref kwarg"
  machine_type_arg :: "string kwarg"
  network_link_arg :: "string kwarg"
  subnetwork_link_arg :: "string option kwarg"
  internal_ip_arg :: "string option kwarg"
  external_access_arg :: "bool kwarg"
  external_ipv4_arg :: "string option kwarg"
  accelerators_arg :: "'a list option kwarg"
  preemptible_arg :: "bool kwarg"
  spot_arg :: "bool kwarg"
  instance_termination_action_arg :: "string kwarg"
  custom_hostname_arg :: "string option kwarg"
  delete_protection_arg :: "bool kwarg"

definition no_args :: "'a create_instance_args" where
  "no_args =
     \<lparr>disks_arg = Omitted, machine_type_arg = Omitted, network_link_arg = Omitted,
      subnetwork_link_arg = Omitted, internal_ip_arg = Omitted, external_access_arg = Omitted,
      external_ipv4_arg = Omitted, accelerators_arg = Omitted, preemptible_arg = Omitted,
      spot_arg = Omitted, instance_termination_action_arg = Omitted,
      custom_hostname_arg = Omitted, delete_protection_arg = Omitted\<rparr>"

text \<open>
  The first part of the body of \<^verbatim>\<open>create_instance\<close>, up to the instance resource
  (\<^verbatim>\<open>network_interface = ...\<close> to \<^verbatim>\<open>instance.deletion_protection = True\<close>).
  \<open>default_disks\<close> is the reference kept by the \<^verbatim>\<open>def\<close> statement.
\<close>

definition build_network_interface :: "'a create_instance_args \<Rightarrow> network_interface" where
  "build_network_interface args =
     (let network_link = kwarg_value ''global/networks/default'' (network_link_arg args);
          subnetwork_link = kwarg_value None (subnetwork_link_arg args);
          internal_ip = kwarg_value None (internal_ip_arg args);
          external_access = kwarg_value False (external_access_arg args);
          external_ipv4 = kwarg_value None (external_ipv4_arg args);
          nif = NetworkInterface;
          nif = nif\<lparr>network := Some network_link\<rparr>;
          nif = (if truthy subnetwork_link then nif\<lparr>subnetwork := subnetwork_link\<rparr> else nif);
          nif = (if truthy internal_ip then nif\<lparr>network_i_p := internal_ip\<rparr> else nif);
          nif = (if external_access then
                   (let access = AccessConfig;
                        access = access\<lparr>access_type := Some ''ONE_TO_ONE_NAT''\<rparr>;
                        access = access\<lparr>access_name := Some ''External NAT''\<rparr>;
                        access = access\<lparr>network_tier := Some ''PREMIUM''\<rparr>;
                        access = (if truthy external_ipv4
                                  then access\<lparr>nat_i_p := external_ipv4\<rparr> else access)
                    in nif\<lparr>access_configs := [access]\<rparr>)
                 else nif)
      in nif)"

definition build_instance ::
  "ref \<Rightarrow> string \<Rightarrow> string \<Rightarrow> 'a create_instance_args \<Rightarrow> io \<Rightarrow> 'a vm_instance \<times> io" where
  "build_instance default_disks zone instance_name args w =
     (let disks_v = kwarg_value default_disks (disks_arg args);
          machine_type_v = kwarg_value ''n1-standard-1'' (machine_type_arg args);
          accelerators = kwarg_value None (accelerators_arg args);
          preemptible_v = kwarg_value False (preemptible_arg args);
          spot = kwarg_value False (spot_arg args);
          instance_termination_action_v =
            kwarg_value ''STOP'' (instance_termination_action_arg args);
          custom_hostname = kwarg_value None (custom_hostname_arg args);
          delete_protection = kwarg_value False (delete_protection_arg args);
          inst = Instance;
          inst = inst\<lparr>network_interfaces := [build_network_interface args]\<rparr>;
          inst = inst\<lparr>inst_name := Some instance_name\<rparr>;
          inst = inst\<lparr>disks := Some disks_v\<rparr>;
          inst = (if re_match_dollar machine_type_pattern machine_type_v
                  then inst\<lparr>machine_type := Some machine_type_v\<rparr>
                  else inst\<lparr>machine_type :=
                         Some (''zones/'' @ zone @ ''/machineTypes/'' @ machine_type_v)\<rparr>);
          inst = (if truthy accelerators then inst\<lparr>guest_accelerators := accelerators\<rparr>
                  else inst);
          (inst, w) =
            (if preemptible_v then
               (let w = warnings_warn ''Preemptible VMs are being replaced by Spot VMs.''
                          ''DeprecationWarning'' w;
                    inst = inst\<lparr>scheduling := Some Scheduling\<rparr>;
                    inst = inst\<lparr>scheduling :=
                             map_option (\<lambda>s. s\<lparr>preemptible := Some True\<rparr>) (scheduling inst)\<rparr>
                in (inst, w))
             else (inst, w));
          inst = (if spot then
                    (let inst = inst\<lparr>scheduling := Some Scheduling\<rparr>;
                         inst = inst\<lparr>scheduling :=
                                  map_option (\<lambda>s. s\<lparr>provisioning_model := Some ''SPOT''\<rparr>)
                                    (scheduling inst)\<rparr>;
                         inst = inst\<lparr>scheduling :=
                                  map_option
                                    (\<lambda>s. s\<lparr>instance_termination_action :=
                                              Some instance_termination_action_v\<rparr>)
                                    (scheduling inst)\<rparr>
                     in inst)
                  else inst);
          inst = (case custom_hostname of
                    None \<Rightarrow> inst
                  | Some h \<Rightarrow> inst\<lparr>hostname := Some h\<rparr>);
          inst = (if delete_protection then inst\<lparr>deletion_protection := Some True\<rparr> else inst)
      in (inst, w))"

text \<open>
  \<^verbatim>\<open>create_instance\<close>: build the instance, send the insert request, wait for the
  operation, then fetch the instance. The result is what the call returns or raises, the
  request that was sent to the client, and the output.
\<close>

definition create_instance ::
  "ref \<Rightarrow> ('a, 'r, 'x, 'i) instances_client \<Rightarrow> string \<Rightarrow> string \<Rightarrow> string \<Rightarrow>
   'a create_instance_args \<Rightarrow> io \<Rightarrow>
   ('x py_exception + 'i) \<times> 'a insert_instance_request \<times> io" where
  "create_instance default_disks instance_client project_id zone instance_name args w =
     (let (inst, w) = build_instance default_disks zone instance_name args w;
          request = InsertInstanceRequest;
          request = request\<lparr>req_zone := Some zone\<rparr>;
          request = request\<lparr>req_project := Some project_id\<rparr>;
          request = request\<lparr>instance_resource := Some inst\<rparr>;
          w = print_out (''Creating the '' @ instance_name @ '' instance in '' @ zone @ ''...'') w;
          operation = client_insert instance_client request;
          (waited, w) = wait_for_extended_operation operation (Given ''instance creation'')
                          Omitted w
      in case waited of
           Inl e \<Rightarrow> (Inl e, request, w)
         | Inr _ \<Rightarrow>
             (let w = print_out (''Instance '' @ instance_name @ '' created.'') w
              in (Inr (client_get instance_client project_id zone instance_name), request, w)))"

text \<open>The instance resource inside the request that a call sends.\<close>

definition built_instance ::
  "ref \<Rightarrow> ('a, 'r, 'x, 'i) instances_client \<Rightarrow> string \<Rightarrow> string \<Rightarrow> string \<Rightarrow>
   'a create_instance_args \<Rightarrow> io \<Rightarrow> 'a vm_instance option" where
  "built_instance default_disks instance_client project_id zone instance_name args w =
     instance_resource
       (fst (snd (create_instance default_disks instance_client project_id zone instance_name
                    args w)))"

text \<open>What the call leaves on the output streams and as warnings.\<close>

definition create_instance_io ::
  "ref \<Rightarrow> ('a, 'r, 'x, 'i) instances_client \<Rightarrow> string \<Rightarrow> string \<Rightarrow> string \<Rightarrow>
   'a create_instance_args \<Rightarrow> io \<Rightarrow> io" where
  "create_instance_io default_disks instance_client project_id zone instance_name args w =
     snd (snd (create_instance default_disks instance_client project_id zone instance_name
                 args w))"

section \<open>Example inputs\<close>

text \<open>
  Concrete handles for the examples below. The payload and the collaborator's exceptions
  are strings here.
\<close>

definition example_warning :: op_warning where
  "example_warning =
     \<lparr>code = PyStr ''DEPRECATED_RESOURCE_USED'', message = PyStr ''image is deprecated''\<rparr>"

definition example_warning2 :: op_warning where
  "example_warning2 = \<lparr>code = PyInt 7, message = PyStr ''disk is larger than image''\<rparr>"

text \<open>A finished operation that failed, with one warning.\<close>

definition op_failed :: "(string, string) operation" where
  "op_failed =
     \<lparr>op_result = (\<lambda>_. Inr ''payload''), error_code = PyInt 404,
      error_message = PyStr ''not found'', op_name = PyStr ''operation-1'',
      op_warnings = [example_warning], op_exception = None\<rparr>"

text \<open>Handles whose \<^verbatim>\<open>result(timeout=...)\<close> raises.\<close>

definition op_timed_out_failed :: "(string, string) operation" where
  "op_timed_out_failed =
     \<lparr>op_result = (\<lambda>_. Inl ''TimeoutError''), error_code = PyInt 404,
      error_message = PyStr ''not found'', op_name = PyStr ''operation-2'',
      op_warnings = [], op_exception = None\<rparr>"

definition op_timed_out_warned :: "(string, string) operation" where
  "op_timed_out_warned =
     \<lparr>op_result = (\<lambda>_. Inl ''TimeoutError''), error_code = PyInt 0,
      error_message = PyStr [], op_name = PyStr ''operation-3'',
      op_warnings = [example_warning], op_exception = None\<rparr>"

text \<open>A finished operation that succeeded, with two warnings.\<close>

definition op_warned :: "(string, string) operation" where
  "op_warned =
     \<lparr>op_result = (\<lambda>_. Inr ''payload''), error_code = PyInt 0,
      error_message = PyStr [], op_name = PyStr ''operation-4'',
      op_warnings = [example_warning, example_warning2], op_exception = None\<rparr>"

text \<open>
  A client whose insert operation succeeds at once and whose \<^verbatim>\<open>get\<close> answers with the
  instance name; accelerator configurations are strings here.
\<close>

definition op_done :: "(string, string) operation" where
  "op_done =
     \<lparr>op_result = (\<lambda>_. Inr ''done''), error_code = PyInt 0,
      error_message = PyStr [], op_name = PyStr ''operation-5'',
      op_warnings = [], op_exception = None\<rparr>"

definition example_client :: "(string, string, string, string) instances_client" where
  "example_client =
     \<lparr>client_insert = (\<lambda>_. op_done), client_get = (\<lambda>project zone name. name)\<rparr>"

text \<open>Calls with external access: an empty address, a given address, no address.\<close>

definition args_external_empty_ip :: "string create_instance_args" where
  "args_external_empty_ip =
     no_args\<lparr>external_access_arg := Given True, external_ipv4_arg := Given (Some [])\<rparr>"

definition args_external_pinned :: "string create_instance_args" where
  "args_external_pinned =
     no_args\<lparr>external_access_arg := Given True, external_ipv4_arg := Given (Some ''1.2.3.4'')\<rparr>"

definition args_external_ephemeral :: "string create_instance_args" where
  "args_external_ephemeral = no_args\<lparr>external_access_arg := Given True\<rparr>"

section \<open>Properties of the operation waiter\<close>

lemma str_int_404: "str_int 404 = ''404''"
  by code_simp

lemma str_int_7: "str_int 7 = ''7''"
  by code_simp

text \<open>The loop adds one line per warning, in order, and nothing else.\<close>

lemma print_warnings_stderr:
  "print_warnings xs w = w\<lparr>stderr := stderr w @ map warning_line xs\<rparr>"
  by (induction xs arbitrary: w) (simp_all add: print_err_def)

text \<open>An exception of \<^verbatim>\<open>operation.result\<close> leaves the waiter as it is, before any output.\<close>

lemma wait_result_raises:
  "op_result operation (kwarg_value 300 t) = Inl e \<Longrightarrow>
   wait_for_extended_operation operation verbose_name t w = (Inl (Collaborator e), w)"
  by (simp add: wait_for_extended_operation_def)

text \<open>
  Claim C1, as amended. For every operation handle whose error code is non-empty (true in
  Python's sense), \<^verbatim>\<open>wait_for_extended_operation\<close> fails and returns no result. When the
  blocking wait \<^verbatim>\<open>operation.result(timeout=...)\<close> returns, the waiter writes two lines
  to the error stream, the first with the label, the error code and the error message, the
  second with the operation identifier, and then raises the exception that
  \<^verbatim>\<open>operation.exception()\<close> supplies, or a \<^verbatim>\<open>RuntimeError\<close> carrying the error message
  if there is none.
\<close>

theorem wait_error_code:
  assumes "truthy_val (error_code operation)"
  shows "isl (fst (wait_for_extended_operation operation verbose_name t w)) \<and>
    (\<forall>result. op_result operation (kwarg_value 300 t) = Inr result \<longrightarrow>
       wait_for_extended_operation operation verbose_name t w =
         (Inl (case op_exception operation of
                 Some e \<Rightarrow> Collaborator e
               | None \<Rightarrow> RuntimeError (error_message operation)),
          w\<lparr>stderr := stderr w @
               [''Error during '' @ kwarg_value ''operation'' verbose_name @ '': [Code: '' @
                  str (error_code operation) @ '']: '' @ str (error_message operation),
                ''Operation ID: '' @ str (op_name operation)]\<rparr>))"
  using assms
  by (simp add: wait_for_extended_operation_def Let_def print_err_def error_line_def
        operation_id_line_def split: sum.splits)

theorem wait_error_code_witness:
  "truthy_val (error_code op_failed) \<and>
   op_result op_failed (kwarg_value 300 Omitted) = Inr ''payload'' \<and>
   wait_for_extended_operation op_failed (Given ''instance start'') Omitted io_empty =
     (Inl (RuntimeError (PyStr ''not found'')),
      \<lparr>stdout = [],
       stderr = [''Error during instance start: [Code: 404]: not found'',
                 ''Operation ID: operation-1''],
       warned = []\<rparr>)"
  using wait_error_code [of op_failed "Given ''instance start''" Omitted io_empty]
  by (simp add: op_failed_def io_empty_def str_int_404)

text \<open>
  The claim as stated fails where the wait itself raises: the handle has the error code
  404, the waiter raises the collaborator's timeout, not the operation's exception or a
  \<^verbatim>\<open>RuntimeError\<close>, and the error stream stays empty.
\<close>

theorem wait_error_code_counterexample:
  "truthy_val (error_code op_timed_out_failed) \<and>
   wait_for_extended_operation op_timed_out_failed (Given ''instance start'') Omitted io_empty =
     (Inl (Collaborator ''TimeoutError''), io_empty) \<and>
   stderr (snd (wait_for_extended_operation op_timed_out_failed (Given ''instance start'')
                  Omitted io_empty)) = []"
  by (simp add: wait_for_extended_operation_def op_timed_out_failed_def io_empty_def)

text \<open>
  Claim C2, as amended. For every operation handle whose wait
  \<^verbatim>\<open>operation.result(timeout=...)\<close> returns a payload, whose error code is empty and whose
  list of warnings is not empty, \<^verbatim>\<open>wait_for_extended_operation\<close> returns that payload,
  and writes to the error stream the header line and then exactly one line per warning, in
  order, each with the code and the message of its warning.
\<close>

theorem wait_warnings:
  assumes "\<not> truthy_val (error_code operation)"
    and "op_warnings operation \<noteq> []"
    and "op_result operation (kwarg_value 300 t) = Inr result"
  shows "wait_for_extended_operation operation verbose_name t w =
     (Inr result,
      w\<lparr>stderr := stderr w @
           (''Warnings during '' @ kwarg_value ''operation'' verbose_name @ '':'' @ [newline]) #
           map (\<lambda>x. '' - '' @ str (code x) @ '': '' @ str (message x))
             (op_warnings operation)\<rparr>)"
  using assms
  by (simp add: wait_for_extended_operation_def Let_def print_warnings_stderr print_err_def
        warnings_header_def warning_line_def)

theorem wait_warnings_witness:
  "\<not> truthy_val (error_code op_warned) \<and> op_warnings op_warned \<noteq> [] \<and>
   op_result op_warned (kwarg_value 300 Omitted) = Inr ''payload'' \<and>
   wait_for_extended_operation op_warned (Given ''instance start'') Omitted io_empty =
     (Inr ''payload'',
      \<lparr>stdout = [],
       stderr = [''Warnings during instance start:'' @ [newline],
                 '' - DEPRECATED_RESOURCE_USED: image is deprecated'',
                 '' - 7: disk is larger than image''],
       warned = []\<rparr>)"
  using wait_warnings [of op_warned Omitted "''payload''" "Given ''instance start''" io_empty]
  by (simp add: op_warned_def io_empty_def example_warning_def example_warning2_def str_int_7)

text \<open>
  The claim as stated fails where the wait raises: the error code is empty and there is a
  warning, yet nothing is returned and nothing is written.
\<close>

theorem wait_warnings_counterexample:
  "\<not> truthy_val (error_code op_timed_out_warned) \<and> op_warnings op_timed_out_warned \<noteq> [] \<and>
   wait_for_extended_operation op_timed_out_warned (Given ''instance start'') Omitted io_empty =
     (Inl (Collaborator ''TimeoutError''), io_empty)"
  by (simp add: wait_for_extended_operation_def op_timed_out_warned_def io_empty_def)

text \<open>
  Claim C3, as amended. For every operation handle in a terminal state (the wait returned)
  with a non-empty list of warnings: when the error code is empty, the waiter writes every
  warning, code and message, to the error stream; when the error code is non-empty, the
  waiter fails and what it writes is the error line and the operation identifier only, no
  warning.
\<close>

theorem wait_warnings_on_success_only:
  assumes "op_result operation (kwarg_value 300 t) = Inr result"
    and "op_warnings operation \<noteq> []"
  shows "(\<not> truthy_val (error_code operation) \<longrightarrow>
            (\<forall>x \<in> set (op_warnings operation).
               '' - '' @ str (code x) @ '': '' @ str (message x)
                 \<in> set (stderr (snd (wait_for_extended_operation operation verbose_name t w))))) \<and>
         (truthy_val (error_code operation) \<longrightarrow>
            isl (fst (wait_for_extended_operation operation verbose_name t w)) \<and>
            stderr (snd (wait_for_extended_operation operation verbose_name t w)) =
              stderr w @
              [''Error during '' @ kwarg_value ''operation'' verbose_name @ '': [Code: '' @
                 str (error_code operation) @ '']: '' @ str (error_message operation),
               ''Operation ID: '' @ str (op_name operation)])"
  using assms
  by (auto simp add: wait_for_extended_operation_def Let_def print_warnings_stderr
        print_err_def warnings_header_def warning_line_def error_line_def
        operation_id_line_def)

theorem wait_warnings_on_success_only_witness:
  "op_result op_warned (kwarg_value 300 Omitted) = Inr ''payload'' \<and>
   op_warnings op_warned \<noteq> [] \<and> \<not> truthy_val (error_code op_warned) \<and>
   '' - DEPRECATED_RESOURCE_USED: image is deprecated''
      \<in> set (stderr (snd (wait_for_extended_operation op_warned Omitted Omitted io_empty))) \<and>
   '' - 7: disk is larger than image''
      \<in> set (stderr (snd (wait_for_extended_operation op_warned Omitted Omitted io_empty))) \<and>
   op_result op_failed (kwarg_value 300 Omitted) = Inr ''payload'' \<and>
   op_warnings op_failed \<noteq> [] \<and> truthy_val (error_code op_failed) \<and>
   stderr (snd (wait_for_extended_operation op_failed Omitted Omitted io_empty)) =
     [''Error during operation: [Code: 404]: not found'', ''Operation ID: operation-1'']"
  using wait_warnings_on_success_only [of op_warned Omitted "''payload''" Omitted io_empty]
    wait_warnings_on_success_only [of op_failed Omitted "''payload''" Omitted io_empty]
  by (simp add: op_warned_def op_failed_def io_empty_def example_warning_def
        example_warning2_def str_int_7 str_int_404)

text \<open>
  The claim as stated fails on a finished operation that failed and has a warning: the
  error stream holds the two lines of the error, and the line of the warning is not there.
\<close>

theorem wait_warnings_on_failure_counterexample:
  "op_result op_failed 300 = Inr ''payload'' \<and> op_warnings op_failed = [example_warning] \<and>
   truthy_val (error_code op_failed) \<and>
   stderr (snd (wait_for_extended_operation op_failed (Given ''instance creation'') Omitted
                  io_empty)) =
     [''Error during instance creation: [Code: 404]: not found'', ''Operation ID: operation-1''] \<and>
   warning_line example_warning
     \<notin> set (stderr (snd (wait_for_extended_operation op_failed (Given ''instance creation'')
                          Omitted io_empty)))"
  by (simp add: wait_for_extended_operation_def op_failed_def io_empty_def print_err_def
        error_line_def operation_id_line_def str_int_404 warning_line_def example_warning_def)

section \<open>The matcher and the strings a pattern denotes\<close>

lemma nullable_lang: "nullable r \<longleftrightarrow> [] \<in> lang r"
  by (induction r) (auto intro: repeat_none)

text \<open>A repetition that starts with \<open>c\<close> starts with a word of the set that does.\<close>

lemma repeat_cons:
  assumes "x \<in> repeat A" and "x = c # w"
  shows "\<exists>u v. w = u @ v \<and> c # u \<in> A \<and> v \<in> repeat A"
  using assms
proof (induction arbitrary: w)
  case repeat_none
  then show ?case by simp
next
  case (repeat_more u v)
  show ?case
  proof (cases u)
    case Nil
    with repeat_more show ?thesis by simp
  next
    case (Cons a u')
    with repeat_more.prems have "a = c" and "w = u' @ v" by simp_all
    with Cons repeat_more.hyps show ?thesis by blast
  qed
qed

lemma lang_Then: "w \<in> lang (Then r s) \<longleftrightarrow> (\<exists>u v. w = u @ v \<and> u \<in> lang r \<and> v \<in> lang s)"
  by simp

text \<open>The derivative by \<open>c\<close> denotes what may follow a leading \<open>c\<close>.\<close>

lemma deriv_lang: "w \<in> lang (deriv c r) \<longleftrightarrow> c # w \<in> lang r"
proof (induction r arbitrary: w)
  case Never
  show ?case by simp
next
  case Empty
  show ?case by simp
next
  case (OneOf cs)
  show ?case by auto
next
  case (Or r s)
  then show ?case by simp
next
  case (Then r s)
  show ?case
  proof
    assume "w \<in> lang (deriv c (Then r s))"
    then consider (left) u v where "w = u @ v" "u \<in> lang (deriv c r)" "v \<in> lang s"
      | (right) "nullable r" "w \<in> lang (deriv c s)"
      by (auto split: if_splits)
    then show "c # w \<in> lang (Then r s)"
    proof cases
      case left
      then have "c # u \<in> lang r" using Then.IH(1) by simp
      with left have "c # w = (c # u) @ v \<and> c # u \<in> lang r \<and> v \<in> lang s" by simp
      then show ?thesis unfolding lang_Then by blast
    next
      case right
      then have "[] \<in> lang r" "c # w \<in> lang s"
        using Then.IH(2) nullable_lang by simp_all
      then have "c # w = [] @ (c # w) \<and> [] \<in> lang r \<and> c # w \<in> lang s" by simp
      then show ?thesis unfolding lang_Then by blast
    qed
  next
    assume "c # w \<in> lang (Then r s)"
    then obtain u v where uv: "c # w = u @ v" "u \<in> lang r" "v \<in> lang s"
      unfolding lang_Then by blast
    show "w \<in> lang (deriv c (Then r s))"
    proof (cases u)
      case Nil
      with uv have "nullable r" "w \<in> lang (deriv c s)"
        using Then.IH(2) nullable_lang by simp_all
      then show ?thesis by simp
    next
      case (Cons a u')
      with uv have "a = c" "w = u' @ v" by simp_all
      with Cons uv have "u' \<in> lang (deriv c r)" using Then.IH(1) by simp
      with uv \<open>w = u' @ v\<close> have "w \<in> lang (Then (deriv c r) s)"
        unfolding lang_Then by blast
      then show ?thesis by simp
    qed
  qed
next
  case (Many r)
  show ?case
  proof
    assume "w \<in> lang (deriv c (Many r))"
    then obtain u v where uv: "w = u @ v" "u \<in> lang (deriv c r)" "v \<in> repeat (lang r)"
      by auto
    then have "c # u \<in> lang r" using Many.IH by simp
    then have "(c # u) @ v \<in> repeat (lang r)" using uv(3) by (rule repeat_more)
    with uv(1) show "c # w \<in> lang (Many r)" by simp
  next
    assume "c # w \<in> lang (Many r)"
    then have "c # w \<in> repeat (lang r)" by simp
    from repeat_cons [OF this refl]
    obtain u v where "w = u @ v" "c # u \<in> lang r" "v \<in> repeat (lang r)" by blast
    then have "w = u @ v \<and> u \<in> lang (deriv c r) \<and> v \<in> lang (Many r)"
      using Many.IH by simp
    then have "w \<in> lang (Then (deriv c r) (Many r))" unfolding lang_Then by blast
    then show "w \<in> lang (deriv c (Many r))" by simp
  qed
qed

lemma derivs_lang: "w \<in> lang (derivs s r) \<longleftrightarrow> s @ w \<in> lang r"
  by (induction s arbitrary: r) (simp_all add: deriv_lang)

text \<open>So the matcher accepts exactly the strings the pattern denotes.\<close>

lemma fullmatch_lang: "fullmatch r s \<longleftrightarrow> s \<in> lang r"
  by (simp add: fullmatch_def nullable_lang derivs_lang)

lemma lang_literal: "lang (literal s) = {s}"
  by (induction s) auto

lemma repeat_chars: "w \<in> repeat (lang (OneOf cs)) \<longleftrightarrow> set w \<subseteq> set cs"
proof
  assume "w \<in> repeat (lang (OneOf cs))"
  then show "set w \<subseteq> set cs"
    by induction auto
next
  assume "set w \<subseteq> set cs"
  then show "w \<in> repeat (lang (OneOf cs))"
  proof (induction w)
    case Nil
    show ?case by (rule repeat_none)
  next
    case (Cons a w)
    then have "[a] \<in> lang (OneOf cs)" and "w \<in> repeat (lang (OneOf cs))" by auto
    then have "[a] @ w \<in> repeat (lang (OneOf cs))" by (rule repeat_more)
    then show ?case by simp
  qed
qed

lemma lang_plus_chars: "w \<in> lang (plus (OneOf cs)) \<longleftrightarrow> w \<noteq> [] \<and> set w \<subseteq> set cs"
proof
  assume "w \<in> lang (plus (OneOf cs))"
  then obtain u v where "w = u @ v" "u \<in> lang (OneOf cs)" "v \<in> repeat (lang (OneOf cs))"
    unfolding plus_def lang_Then by auto
  then show "w \<noteq> [] \<and> set w \<subseteq> set cs"
    using repeat_chars [of v cs] by auto
next
  assume "w \<noteq> [] \<and> set w \<subseteq> set cs"
  then obtain a w' where w: "w = a # w'" "a \<in> set cs" "set w' \<subseteq> set cs"
    by (cases w) auto
  then have "w = [a] @ w' \<and> [a] \<in> lang (OneOf cs) \<and> w' \<in> lang (Many (OneOf cs))"
    using repeat_chars [of w' cs] by simp
  then show "w \<in> lang (plus (OneOf cs))"
    unfolding plus_def lang_Then by blast
qed

text \<open>
  The machine-type pattern: \<^verbatim>\<open>zones/\<close>, a non-empty name, \<^verbatim>\<open>/machineTypes/\<close>, a
  non-empty name, where a name is made of lower-case letters, digits and hyphens.
\<close>

lemma lang_machine_type_pattern:
  "u \<in> lang machine_type_pattern \<longleftrightarrow>
     (\<exists>a b. u = ''zones/'' @ a @ ''/machineTypes/'' @ b \<and>
        a \<noteq> [] \<and> set a \<subseteq> set name_chars \<and> b \<noteq> [] \<and> set b \<subseteq> set name_chars)"
  unfolding machine_type_pattern_def lang_Then lang_literal lang_plus_chars singleton_iff
  by blast

text \<open>
  What \<^verbatim>\<open>re.match\<close> accepts under the pattern of \<^verbatim>\<open>create_instance\<close>: such a string,
  with or without one newline at its end.
\<close>

lemma machine_type_pattern_matches:
  "re_match_dollar machine_type_pattern s \<longleftrightarrow>
     (\<exists>a b t. s = ''zones/'' @ a @ ''/machineTypes/'' @ b @ t \<and>
        a \<noteq> [] \<and> set a \<subseteq> set name_chars \<and> b \<noteq> [] \<and> set b \<subseteq> set name_chars \<and>
        (t = [] \<or> t = [newline]))"
proof -
  have "re_match_dollar machine_type_pattern s \<longleftrightarrow>
      (\<exists>u t. s = u @ t \<and> u \<in> lang machine_type_pattern \<and> (t = [] \<or> t = [newline]))"
    unfolding re_match_dollar_def fullmatch_lang lang_Then by auto
  also have "\<dots> \<longleftrightarrow> (\<exists>a b t. s = (''zones/'' @ a @ ''/machineTypes/'' @ b) @ t \<and>
        a \<noteq> [] \<and> set a \<subseteq> set name_chars \<and> b \<noteq> [] \<and> set b \<subseteq> set name_chars \<and>
        (t = [] \<or> t = [newline]))"
    unfolding lang_machine_type_pattern by blast
  finally show ?thesis by (simp only: append_assoc)
qed

section \<open>Properties of instance creation\<close>

text \<open>The waiter raises no Python warning.\<close>

lemma wait_warned:
  "warned (snd (wait_for_extended_operation operation verbose_name t w)) = warned w"
  by (simp add: wait_for_extended_operation_def Let_def print_warnings_stderr print_err_def
        split: sum.splits)

text \<open>
  The instance in the request is the one the first part of the body builds, whatever the
  operation does afterwards.
\<close>

lemma built_instance_build:
  "built_instance d c p z n args w = Some (fst (build_instance d z n args w))"
  by (simp add: built_instance_def create_instance_def Let_def InsertInstanceRequest_def
        split: prod.splits sum.splits)

lemma create_instance_warned:
  "warned (create_instance_io d c p z n args w) = warned (snd (build_instance d z n args w))"
proof -
  obtain inst w1 where b: "build_instance d z n args w = (inst, w1)"
    by (cases "build_instance d z n args w")
  let ?w2 = "print_out (''Creating the '' @ n @ '' instance in '' @ z @ ''...'') w1"
  let ?req = "InsertInstanceRequest\<lparr>req_zone := Some z, req_project := Some p,
                 instance_resource := Some inst\<rparr>"
  obtain r w3 where wt:
    "wait_for_extended_operation (client_insert c ?req) (Given ''instance creation'') Omitted ?w2
       = (r, w3)"
    by (cases "wait_for_extended_operation (client_insert c ?req) (Given ''instance creation'')
                 Omitted ?w2")
  have "warned w3 = warned ?w2"
    using wait_warned [of "client_insert c ?req" "Given ''instance creation''" Omitted ?w2] wt
    by simp
  then have w3: "warned w3 = warned w1"
    by (simp add: print_out_def)
  show ?thesis
    using b wt w3
    by (cases r) (simp_all add: create_instance_io_def create_instance_def Let_def print_out_def)
qed

text \<open>The fields of the built instance, one at a time.\<close>

lemma build_machine_type:
  "machine_type (fst (build_instance d z n args w)) =
     Some (let mt = kwarg_value ''n1-standard-1'' (machine_type_arg args)
           in if re_match_dollar machine_type_pattern mt then mt
              else ''zones/'' @ z @ ''/machineTypes/'' @ mt)"
  by (simp add: build_instance_def Let_def Instance_def split: prod.splits option.splits)

lemma build_scheduling:
  "scheduling (fst (build_instance d z n args w)) =
     (if kwarg_value False (spot_arg args)
      then Some \<lparr>preemptible = None, provisioning_model = Some ''SPOT'',
                 instance_termination_action =
                   Some (kwarg_value ''STOP'' (instance_termination_action_arg args))\<rparr>
      else if kwarg_value False (preemptible_arg args)
      then Some \<lparr>preemptible = Some True, provisioning_model = None,
                 instance_termination_action = None\<rparr>
      else None)"
  by (simp add: build_instance_def Let_def Instance_def Scheduling_def
        split: prod.splits option.splits)

lemma build_warned:
  "warned (snd (build_instance d z n args w)) =
     (if kwarg_value False (preemptible_arg args)
      then warned w @ [(''DeprecationWarning'', ''Preemptible VMs are being replaced by Spot VMs.'')]
      else warned w)"
  by (simp add: build_instance_def Let_def warnings_warn_def split: prod.splits option.splits)

lemma build_network_interfaces:
  "network_interfaces (fst (build_instance d z n args w)) = [build_network_interface args]"
  by (simp add: build_instance_def Let_def Instance_def split: prod.splits option.splits)

lemma build_disks:
  "disks (fst (build_instance d z n args w)) = Some (kwarg_value d (disks_arg args))"
  by (simp add: build_instance_def Let_def Instance_def split: prod.splits option.splits)

lemma short_machine_type_no_match:
  "re_match_dollar machine_type_pattern ''n1-standard-1'' = False"
  by code_simp

lemma full_machine_type_match:
  "re_match_dollar machine_type_pattern ''zones/us-central1-c/machineTypes/n1-standard-1'' = True"
  by code_simp

text \<open>
  Claim C4. In \<^verbatim>\<open>create_instance\<close>, a machine type that matches the pattern
  \<^verbatim>\<open>^zones/[a-z\d\-]+/machineTypes/[a-z\d\-]+$\<close> becomes the \<^verbatim>\<open>machine_type\<close> of the
  instance as it is; one that does not match becomes
  \<^verbatim>\<open>zones/<zone>/machineTypes/<machine type>\<close>; so \<^verbatim>\<open>n1-standard-1\<close> in zone
  \<^verbatim>\<open>us-central1-c\<close> gives \<^verbatim>\<open>zones/us-central1-c/machineTypes/n1-standard-1\<close>.
\<close>

theorem create_instance_machine_type:
  assumes "machine_type_arg args = Given mt"
  shows "\<exists>inst. built_instance d c p zone n args w = Some inst \<and>
     (re_match_dollar machine_type_pattern mt \<longrightarrow> machine_type inst = Some mt) \<and>
     (\<not> re_match_dollar machine_type_pattern mt \<longrightarrow>
        machine_type inst = Some (''zones/'' @ zone @ ''/machineTypes/'' @ mt)) \<and>
     (mt = ''n1-standard-1'' \<and> zone = ''us-central1-c'' \<longrightarrow>
        machine_type inst = Some ''zones/us-central1-c/machineTypes/n1-standard-1'')"
  using assms
  by (auto simp add: built_instance_build build_machine_type short_machine_type_no_match)

theorem create_instance_machine_type_witness:
  "map_option machine_type
     (built_instance 0 example_client ''project'' ''europe-west1-b'' ''vm''
        (no_args\<lparr>machine_type_arg :=
                   Given ''zones/us-central1-c/machineTypes/n1-standard-1''\<rparr>) io_empty) =
     Some (Some ''zones/us-central1-c/machineTypes/n1-standard-1'') \<and>
   map_option machine_type
     (built_instance 0 example_client ''project'' ''us-central1-c'' ''vm''
        (no_args\<lparr>machine_type_arg := Given ''n1-standard-1''\<rparr>) io_empty) =
     Some (Some ''zones/us-central1-c/machineTypes/n1-standard-1'')"
  using create_instance_machine_type
      [of "no_args\<lparr>machine_type_arg :=
                     Given ''zones/us-central1-c/machineTypes/n1-standard-1''\<rparr>"
          "''zones/us-central1-c/machineTypes/n1-standard-1''" 0 example_client
          "''project''" "''europe-west1-b''" "''vm''" io_empty]
    create_instance_machine_type
      [of "no_args\<lparr>machine_type_arg := Given ''n1-standard-1''\<rparr>" "''n1-standard-1''"
          0 example_client "''project''" "''us-central1-c''" "''vm''" io_empty]
  by (auto simp add: full_machine_type_match short_machine_type_no_match)

text \<open>
  Claim C5. With \<^verbatim>\<open>preemptible\<close> true and \<^verbatim>\<open>spot\<close> false, the scheduling object of the
  built instance has \<^verbatim>\<open>preemptible\<close> set to \<^verbatim>\<open>True\<close>, and the call raises exactly one
  warning, a \<^verbatim>\<open>DeprecationWarning\<close>. With \<^verbatim>\<open>spot\<close> true, the provisioning model of the
  scheduling object is \<^verbatim>\<open>SPOT\<close> and its termination action is the argument
  \<^verbatim>\<open>instance_termination_action\<close>, which is \<^verbatim>\<open>STOP\<close> when the caller omits it.
\<close>

theorem create_instance_scheduling_flags:
  "\<exists>inst. built_instance d c p z n args w = Some inst \<and>
     (kwarg_value False (preemptible_arg args) \<and> \<not> kwarg_value False (spot_arg args) \<longrightarrow>
        (\<exists>s. scheduling inst = Some s \<and> preemptible s = Some True) \<and>
        warned (create_instance_io d c p z n args w) =
          warned w @
          [(''DeprecationWarning'', ''Preemptible VMs are being replaced by Spot VMs.'')]) \<and>
     (kwarg_value False (spot_arg args) \<longrightarrow>
        (\<exists>s. scheduling inst = Some s \<and> provisioning_model s = Some ''SPOT'' \<and>
           instance_termination_action s =
             Some (kwarg_value ''STOP'' (instance_termination_action_arg args)) \<and>
           (instance_termination_action_arg args = Omitted \<longrightarrow>
              instance_termination_action s = Some ''STOP'')))"
  by (simp add: built_instance_build build_scheduling create_instance_warned build_warned)

theorem create_instance_scheduling_flags_witness:
  "map_option scheduling
     (built_instance 0 example_client ''project'' ''us-central1-c'' ''vm''
        (no_args\<lparr>preemptible_arg := Given True\<rparr>) io_empty) =
     Some (Some \<lparr>preemptible = Some True, provisioning_model = None,
                 instance_termination_action = None\<rparr>) \<and>
   warned (create_instance_io 0 example_client ''project'' ''us-central1-c'' ''vm''
             (no_args\<lparr>preemptible_arg := Given True\<rparr>) io_empty) =
     [(''DeprecationWarning'', ''Preemptible VMs are being replaced by Spot VMs.'')] \<and>
   map_option (map_option provisioning_model \<circ> scheduling)
     (built_instance 0 example_client ''project'' ''us-central1-c'' ''vm''
        (no_args\<lparr>spot_arg := Given True\<rparr>) io_empty) = Some (Some (Some ''SPOT'')) \<and>
   map_option (map_option instance_termination_action \<circ> scheduling)
     (built_instance 0 example_client ''project'' ''us-central1-c'' ''vm''
        (no_args\<lparr>spot_arg := Given True\<rparr>) io_empty) = Some (Some (Some ''STOP'')) \<and>
   map_option (map_option instance_termination_action \<circ> scheduling)
     (built_instance 0 example_client ''project'' ''us-central1-c'' ''vm''
        (no_args\<lparr>spot_arg := Given True, instance_termination_action_arg := Given ''DELETE''\<rparr>)
        io_empty) = Some (Some (Some ''DELETE''))"
  using create_instance_scheduling_flags
      [of 0 example_client "''project''" "''us-central1-c''" "''vm''"
          "no_args\<lparr>preemptible_arg := Given True\<rparr>" io_empty]
    create_instance_scheduling_flags
      [of 0 example_client "''project''" "''us-central1-c''" "''vm''"
          "no_args\<lparr>spot_arg := Given True\<rparr>" io_empty]
    create_instance_scheduling_flags
      [of 0 example_client "''project''" "''us-central1-c''" "''vm''"
          "no_args\<lparr>spot_arg := Given True, instance_termination_action_arg := Given ''DELETE''\<rparr>"
          io_empty]
  by (auto simp add: no_args_def io_empty_def built_instance_build build_scheduling)

text \<open>
  Claim C6. With both \<^verbatim>\<open>preemptible\<close> and \<^verbatim>\<open>spot\<close> true, the last assignment wins: the
  scheduling object of the built instance is a new one that carries the provisioning model
  \<^verbatim>\<open>SPOT\<close> and the termination action, and the \<^verbatim>\<open>preemptible\<close> flag set before is gone.
\<close>

theorem create_instance_preemptible_and_spot:
  assumes "kwarg_value False (preemptible_arg args)"
    and "kwarg_value False (spot_arg args)"
  shows "\<exists>inst. built_instance d c p z n args w = Some inst \<and>
     scheduling inst =
       Some (Scheduling\<lparr>provisioning_model := Some ''SPOT'',
               instance_termination_action :=
                 Some (kwarg_value ''STOP'' (instance_termination_action_arg args))\<rparr>) \<and>
     (\<exists>s. scheduling inst = Some s \<and> preemptible s = None)"
  using assms
  by (simp add: built_instance_build build_scheduling Scheduling_def)

theorem create_instance_preemptible_and_spot_witness:
  "kwarg_value False (preemptible_arg
      (no_args\<lparr>preemptible_arg := Given True, spot_arg := Given True\<rparr> ::
         string create_instance_args)) \<and>
   kwarg_value False (spot_arg
      (no_args\<lparr>preemptible_arg := Given True, spot_arg := Given True\<rparr> ::
         string create_instance_args)) \<and>
   map_option scheduling
     (built_instance 0 example_client ''project'' ''us-central1-c'' ''vm''
        (no_args\<lparr>preemptible_arg := Given True, spot_arg := Given True\<rparr>) io_empty) =
     Some (Some \<lparr>preemptible = None, provisioning_model = Some ''SPOT'',
                 instance_termination_action = Some ''STOP''\<rparr>)"
  using create_instance_preemptible_and_spot
      [of "no_args\<lparr>preemptible_arg := Given True, spot_arg := Given True\<rparr>"
          0 example_client "''project''" "''us-central1-c''" "''vm''" io_empty]
  by (auto simp add: no_args_def Scheduling_def)

section \<open>Properties of the network interface and of disks\<close>

text \<open>The fields of the network interface, one at a time.\<close>

lemma build_access_configs:
  "access_configs (build_network_interface args) =
     (if kwarg_value False (external_access_arg args)
      then [\<lparr>access_type = Some ''ONE_TO_ONE_NAT'', access_name = Some ''External NAT'',
             network_tier = Some ''PREMIUM'',
             nat_i_p = (if truthy (kwarg_value None (external_ipv4_arg args))
                        then kwarg_value None (external_ipv4_arg args) else None)\<rparr>]
      else [])"
  by (simp add: build_network_interface_def Let_def NetworkInterface_def AccessConfig_def)

lemma build_subnetwork:
  "subnetwork (build_network_interface args) =
     (if truthy (kwarg_value None (subnetwork_link_arg args))
      then kwarg_value None (subnetwork_link_arg args) else None)"
  by (simp add: build_network_interface_def Let_def NetworkInterface_def AccessConfig_def)

lemma build_network_i_p:
  "network_i_p (build_network_interface args) =
     (if truthy (kwarg_value None (internal_ip_arg args))
      then kwarg_value None (internal_ip_arg args) else None)"
  by (simp add: build_network_interface_def Let_def NetworkInterface_def AccessConfig_def)

text \<open>
  Claim C7, as amended. With \<^verbatim>\<open>external_access\<close> true, the network interface of the built
  instance carries exactly one access config, of type \<^verbatim>\<open>ONE_TO_ONE_NAT\<close>, named
  \<^verbatim>\<open>External NAT\<close>, on the network tier \<^verbatim>\<open>PREMIUM\<close>; its NAT address is
  \<^verbatim>\<open>external_ipv4\<close> when that argument is a non-empty string, and is left unset when the
  argument is \<^verbatim>\<open>None\<close> or the empty string. With \<^verbatim>\<open>external_access\<close> false, the
  interface has no access config.
\<close>

theorem create_instance_access_config:
  "\<exists>inst nif. built_instance d c p z n args w = Some inst \<and>
     network_interfaces inst = [nif] \<and>
     (kwarg_value False (external_access_arg args) \<longrightarrow>
        (\<exists>access. access_configs nif = [access] \<and>
           access_type access = Some ''ONE_TO_ONE_NAT'' \<and>
           access_name access = Some ''External NAT'' \<and>
           network_tier access = Some ''PREMIUM'' \<and>
           (\<forall>ip. kwarg_value None (external_ipv4_arg args) = Some ip \<and> ip \<noteq> [] \<longrightarrow>
                 nat_i_p access = Some ip) \<and>
           (kwarg_value None (external_ipv4_arg args) = None \<or>
            kwarg_value None (external_ipv4_arg args) = Some [] \<longrightarrow>
              nat_i_p access = None))) \<and>
     (\<not> kwarg_value False (external_access_arg args) \<longrightarrow> access_configs nif = [])"
  by (auto simp add: built_instance_build build_network_interfaces build_access_configs)

theorem create_instance_access_config_witness:
  "map_option (map access_configs \<circ> network_interfaces)
     (built_instance 0 example_client ''project'' ''us-central1-c'' ''vm''
        args_external_pinned io_empty) =
     Some [ [\<lparr>access_type = Some ''ONE_TO_ONE_NAT'', access_name = Some ''External NAT'',
              network_tier = Some ''PREMIUM'', nat_i_p = Some ''1.2.3.4''\<rparr>] ] \<and>
   map_option (map access_configs \<circ> network_interfaces)
     (built_instance 0 example_client ''project'' ''us-central1-c'' ''vm''
        args_external_ephemeral io_empty) =
     Some [ [\<lparr>access_type = Some ''ONE_TO_ONE_NAT'', access_name = Some ''External NAT'',
              network_tier = Some ''PREMIUM'', nat_i_p = None\<rparr>] ] \<and>
   map_option (map access_configs \<circ> network_interfaces)
     (built_instance 0 example_client ''project'' ''us-central1-c'' ''vm''
        (no_args :: string create_instance_args) io_empty) = Some [ [] ]"
proof -
  have a: "kwarg_value False (external_access_arg args_external_pinned)"
    "kwarg_value None (external_ipv4_arg args_external_pinned) = Some ''1.2.3.4''"
    by (simp_all add: args_external_pinned_def no_args_def)
  have b: "kwarg_value False (external_access_arg args_external_ephemeral)"
    "kwarg_value None (external_ipv4_arg args_external_ephemeral) = None"
    by (simp_all add: args_external_ephemeral_def no_args_def)
  have c: "\<not> kwarg_value False (external_access_arg (no_args :: string create_instance_args))"
    by (simp add: no_args_def)
  from create_instance_access_config
      [of 0 example_client "''project''" "''us-central1-c''" "''vm''" args_external_pinned
          io_empty] a
  have 1: "map_option (map access_configs \<circ> network_interfaces)
     (built_instance 0 example_client ''project'' ''us-central1-c'' ''vm''
        args_external_pinned io_empty) =
     Some [ [\<lparr>access_type = Some ''ONE_TO_ONE_NAT'', access_name = Some ''External NAT'',
              network_tier = Some ''PREMIUM'', nat_i_p = Some ''1.2.3.4''\<rparr>] ]"
    by auto
  from create_instance_access_config
      [of 0 example_client "''project''" "''us-central1-c''" "''vm''" args_external_ephemeral
          io_empty] b
  have 2: "map_option (map access_configs \<circ> network_interfaces)
     (built_instance 0 example_client ''project'' ''us-central1-c'' ''vm''
        args_external_ephemeral io_empty) =
     Some [ [\<lparr>access_type = Some ''ONE_TO_ONE_NAT'', access_name = Some ''External NAT'',
              network_tier = Some ''PREMIUM'', nat_i_p = None\<rparr>] ]"
    by auto
  from create_instance_access_config
      [of 0 example_client "''project''" "''us-central1-c''" "''vm''"
          "no_args :: string create_instance_args" io_empty] c
  have 3: "map_option (map access_configs \<circ> network_interfaces)
     (built_instance 0 example_client ''project'' ''us-central1-c'' ''vm''
        (no_args :: string create_instance_args) io_empty) = Some [ [] ]"
    by auto
  from 1 2 3 show ?thesis by blast
qed

text \<open>
  The instance built for \<^verbatim>\<open>external_access=True, external_ipv4=""\<close> and nothing else.
\<close>

lemma build_instance_external_empty_ip:
  "fst (build_instance 0 ''us-central1-c'' ''vm'' args_external_empty_ip io_empty) =
     \<lparr>network_interfaces =
             [\<lparr>network = Some ''global/networks/default'', subnetwork = None,
               network_i_p = None,
               access_configs =
                 [\<lparr>access_type = Some ''ONE_TO_ONE_NAT'', access_name = Some ''External NAT'',
                   network_tier = Some ''PREMIUM'', nat_i_p = None\<rparr>]\<rparr>],
           inst_name = Some ''vm'', disks = Some 0,
           machine_type = Some ''zones/us-central1-c/machineTypes/n1-standard-1'',
           guest_accelerators = None, scheduling = None, hostname = None,
           deletion_protection = None\<rparr>"
proof -
  have n: "build_network_interface args_external_empty_ip =
      \<lparr>network = Some ''global/networks/default'', subnetwork = None,
               network_i_p = None,
               access_configs =
                 [\<lparr>access_type = Some ''ONE_TO_ONE_NAT'', access_name = Some ''External NAT'',
                   network_tier = Some ''PREMIUM'', nat_i_p = None\<rparr>]\<rparr>"
    by (simp add: build_network_interface_def Let_def args_external_empty_ip_def no_args_def
          NetworkInterface_def AccessConfig_def)
  have k: "machine_type_arg args_external_empty_ip = Omitted"
    "disks_arg args_external_empty_ip = Omitted"
    "accelerators_arg args_external_empty_ip = Omitted"
    "preemptible_arg args_external_empty_ip = Omitted"
    "spot_arg args_external_empty_ip = Omitted"
    "instance_termination_action_arg args_external_empty_ip = Omitted"
    "custom_hostname_arg args_external_empty_ip = Omitted"
    "delete_protection_arg args_external_empty_ip = Omitted"
    by (simp_all add: args_external_empty_ip_def no_args_def)
  show ?thesis
    by (simp add: build_instance_def Let_def n k short_machine_type_no_match Instance_def)
qed

text \<open>
  The claim as stated fails for an address that is supplied but empty: the argument is the
  empty string, and the NAT address of the access config is unset, not the empty string.
\<close>

theorem create_instance_access_config_counterexample:
  "kwarg_value None (external_ipv4_arg args_external_empty_ip) = Some [] \<and>
   kwarg_value False (external_access_arg args_external_empty_ip) \<and>
   built_instance 0 example_client ''project'' ''us-central1-c'' ''vm'' args_external_empty_ip
     io_empty =
     Some \<lparr>network_interfaces =
             [\<lparr>network = Some ''global/networks/default'', subnetwork = None,
               network_i_p = None,
               access_configs =
                 [\<lparr>access_type = Some ''ONE_TO_ONE_NAT'', access_name = Some ''External NAT'',
                   network_tier = Some ''PREMIUM'', nat_i_p = None\<rparr>]\<rparr>],
           inst_name = Some ''vm'', disks = Some 0,
           machine_type = Some ''zones/us-central1-c/machineTypes/n1-standard-1'',
           guest_accelerators = None, scheduling = None, hostname = None,
           deletion_protection = None\<rparr>"
proof -
  have "kwarg_value None (external_ipv4_arg args_external_empty_ip) = Some []"
    and "kwarg_value False (external_access_arg args_external_empty_ip)"
    by (simp_all add: args_external_empty_ip_def no_args_def)
  then show ?thesis
    by (simp only: built_instance_build build_instance_external_empty_ip simp_thms)
qed

text \<open>
  Claim C8. \<^verbatim>\<open>disk_from_image\<close> is a function of its arguments alone, with no output
  and no call to the service: the initialize-params of the disk it returns carry the given
  source image, size and disk type, and its \<^verbatim>\<open>boot\<close> and \<^verbatim>\<open>auto_delete\<close> are the given
  flags, \<^verbatim>\<open>auto_delete\<close> being \<^verbatim>\<open>True\<close> when omitted. So
  \<^verbatim>\<open>disk_from_image("pd-balanced", 10, True, "debian-11", True)\<close> sets the five fields as
  given.
\<close>

theorem disk_from_image_fields:
  "disk_from_image disk_type_v disk_size_gb_v boot_v source_image_v auto_delete_arg =
     \<lparr>initialize_params =
        Some \<lparr>source_image = Some source_image_v, disk_size_gb = Some disk_size_gb_v,
              disk_type = Some disk_type_v\<rparr>,
      auto_delete = Some (kwarg_value True auto_delete_arg), boot = Some boot_v\<rparr> \<and>
   auto_delete (disk_from_image disk_type_v disk_size_gb_v boot_v source_image_v Omitted) =
     Some True \<and>
   disk_from_image ''pd-balanced'' 10 True ''debian-11'' (Given True) =
     \<lparr>initialize_params =
        Some \<lparr>source_image = Some ''debian-11'', disk_size_gb = Some 10,
              disk_type = Some ''pd-balanced''\<rparr>,
      auto_delete = Some True, boot = Some True\<rparr>"
  by (simp add: disk_from_image_def Let_def AttachedDisk_def AttachedDiskInitializeParams_def)

theorem disk_from_image_fields_witness:
  "disk_from_image ''pd-ssd'' 50 False ''debian-12'' (Given False) =
     \<lparr>initialize_params =
        Some \<lparr>source_image = Some ''debian-12'', disk_size_gb = Some 50,
              disk_type = Some ''pd-ssd''\<rparr>,
      auto_delete = Some False, boot = Some False\<rparr>"
  using disk_from_image_fields [of "''pd-ssd''" 50 False "''debian-12''" "Given False"]
  by simp

section \<open>The default list of disks\<close>

lemma default_disk:
  "disk_from_image ''zones/us-central1-c/diskTypes/pd-balanced'' 10 True
     ''projects/debian-cloud/global/images/debian-11-bullseye-v20230615'' Omitted =
   \<lparr>initialize_params =
      Some \<lparr>source_image =
              Some ''projects/debian-cloud/global/images/debian-11-bullseye-v20230615'',
            disk_size_gb = Some 10,
            disk_type = Some ''zones/us-central1-c/diskTypes/pd-balanced''\<rparr>,
    auto_delete = Some True, boot = Some True\<rparr>"
  by (simp add: disk_from_image_def Let_def AttachedDisk_def AttachedDiskInitializeParams_def)

text \<open>The \<^verbatim>\<open>def\<close> statement builds one list and changes nothing else in the store.\<close>

lemma def_create_instance_store:
  assumes "def_create_instance st = (d, st')"
  shows "d = next_ref st" and "next_ref st' = Suc (next_ref st)"
    and "cells st' =
          (cells st)(d \<mapsto>
            [disk_from_image ''zones/us-central1-c/diskTypes/pd-balanced'' 10 True
               ''projects/debian-cloud/global/images/debian-11-bullseye-v20230615'' Omitted])"
  using assms by (auto simp add: def_create_instance_def new_list_def)

lemma built_instance_default_disks:
  assumes "disks_arg args = Omitted"
  shows "\<exists>inst. built_instance d c p z n args w = Some inst \<and> disks inst = Some d"
  using assms by (simp add: built_instance_build build_disks)

text \<open>
  Claim C9. The default of the \<^verbatim>\<open>disks\<close> parameter of \<^verbatim>\<open>create_instance\<close> is a list
  built exactly once, when the \<^verbatim>\<open>def\<close> statement runs; it holds one boot disk of type
  \<^verbatim>\<open>zones/us-central1-c/diskTypes/pd-balanced\<close>, 10 GB, from the debian-11 image. Every
  call that gives no \<^verbatim>\<open>disks\<close> argument assigns this one list, the same object, to the
  \<^verbatim>\<open>disks\<close> of the instance it builds. A call does not touch the store of lists: the
  model of \<^verbatim>\<open>create_instance\<close> neither takes nor returns it.
\<close>

theorem create_instance_default_disks:
  assumes "def_create_instance st = (d, st')"
  shows "cells st' d =
       Some [\<lparr>initialize_params =
                Some \<lparr>source_image =
                        Some ''projects/debian-cloud/global/images/debian-11-bullseye-v20230615'',
                      disk_size_gb = Some 10,
                      disk_type = Some ''zones/us-central1-c/diskTypes/pd-balanced''\<rparr>,
              auto_delete = Some True, boot = Some True\<rparr>] \<and>
     d = next_ref st \<and> next_ref st' = Suc (next_ref st) \<and>
     (\<forall>r. r \<noteq> d \<longrightarrow> cells st' r = cells st r) \<and>
     (disks_arg args1 = Omitted \<and> disks_arg args2 = Omitted \<longrightarrow>
        (\<exists>inst1 inst2.
           built_instance d c1 p1 z1 n1 args1 w1 = Some inst1 \<and>
           built_instance d c2 p2 z2 n2 args2 w2 = Some inst2 \<and>
           disks inst1 = Some d \<and> disks inst2 = Some d))"
proof -
  note s = def_create_instance_store [OF assms]
  have 1: "cells st' d =
       Some [\<lparr>initialize_params =
                Some \<lparr>source_image =
                        Some ''projects/debian-cloud/global/images/debian-11-bullseye-v20230615'',
                      disk_size_gb = Some 10,
                      disk_type = Some ''zones/us-central1-c/diskTypes/pd-balanced''\<rparr>,
              auto_delete = Some True, boot = Some True\<rparr>]"
    by (simp only: s(3) default_disk fun_upd_same)
  have 2: "\<forall>r. r \<noteq> d \<longrightarrow> cells st' r = cells st r"
    by (simp add: s(3))
  have 3: "disks_arg args1 = Omitted \<and> disks_arg args2 = Omitted \<longrightarrow>
        (\<exists>inst1 inst2.
           built_instance d c1 p1 z1 n1 args1 w1 = Some inst1 \<and>
           built_instance d c2 p2 z2 n2 args2 w2 = Some inst2 \<and>
           disks inst1 = Some d \<and> disks inst2 = Some d)"
    by (simp add: built_instance_build build_disks)
  from 1 2 3 s(1) s(2) show ?thesis by blast
qed

theorem create_instance_default_disks_witness:
  "def_create_instance store_empty = (0, snd (def_create_instance store_empty)) \<and>
   cells (snd (def_create_instance store_empty)) 0 =
       Some [\<lparr>initialize_params =
                Some \<lparr>source_image =
                        Some ''projects/debian-cloud/global/images/debian-11-bullseye-v20230615'',
                      disk_size_gb = Some 10,
                      disk_type = Some ''zones/us-central1-c/diskTypes/pd-balanced''\<rparr>,
              auto_delete = Some True, boot = Some True\<rparr>] \<and>
   map_option disks
     (built_instance 0 example_client ''project'' ''us-central1-c'' ''vm-1''
        (no_args :: string create_instance_args) io_empty) = Some (Some 0) \<and>
   map_option disks
     (built_instance 0 example_client ''project'' ''us-central1-c'' ''vm-2''
        args_external_pinned io_empty) = Some (Some 0)"
proof -
  have h: "def_create_instance store_empty = (0, snd (def_create_instance store_empty))"
    by (simp add: def_create_instance_def new_list_def store_empty_def)
  have a: "disks_arg (no_args :: string create_instance_args) = Omitted"
    "disks_arg args_external_pinned = Omitted"
    by (simp_all add: no_args_def args_external_pinned_def)
  from create_instance_default_disks
      [OF h, of "no_args :: string create_instance_args" args_external_pinned
         example_client "''project''" "''us-central1-c''" "''vm-1''" io_empty
         example_client "''project''" "''us-central1-c''" "''vm-2''" io_empty] a h
  show ?thesis by auto
qed

text \<open>
  What sharing means: an element appended through the reference is in the list that every
  later call without \<^verbatim>\<open>disks\<close> attaches.
\<close>

lemma default_disks_mutation_is_shared:
  assumes "def_create_instance st = (d, st')"
  shows "\<exists>xs. cells st' d = Some xs \<and> cells (list_append d x st') d = Some (xs @ [x])"
  using def_create_instance_store(3) [OF assms]
  by (simp add: list_append_def)

section \<open>Empty strings for optional arguments\<close>

lemma create_instance_cong_build:
  assumes "build_instance d z n args1 w = build_instance d z n args2 w"
  shows "create_instance d c p z n args1 w = create_instance d c p z n args2 w"
  using assms by (simp add: create_instance_def)

lemma build_network_interface_empty_subnetwork:
  "build_network_interface (args\<lparr>subnetwork_link_arg := Given (Some [])\<rparr>) =
   build_network_interface (args\<lparr>subnetwork_link_arg := Given None\<rparr>)"
  by (simp add: build_network_interface_def Let_def)

lemma build_network_interface_empty_internal_ip:
  "build_network_interface (args\<lparr>internal_ip_arg := Given (Some [])\<rparr>) =
   build_network_interface (args\<lparr>internal_ip_arg := Given None\<rparr>)"
  by (simp add: build_network_interface_def Let_def)

lemma build_network_interface_empty_external_ipv4:
  "build_network_interface (args\<lparr>external_ipv4_arg := Given (Some [])\<rparr>) =
   build_network_interface (args\<lparr>external_ipv4_arg := Given None\<rparr>)"
  by (simp add: build_network_interface_def Let_def)

text \<open>
  The instance depends on the network arguments only through the network interface.
\<close>

lemma build_instance_network_args:
  assumes "build_network_interface args1 = build_network_interface args2"
    and "disks_arg args1 = disks_arg args2"
    and "machine_type_arg args1 = machine_type_arg args2"
    and "accelerators_arg args1 = accelerators_arg args2"
    and "preemptible_arg args1 = preemptible_arg args2"
    and "spot_arg args1 = spot_arg args2"
    and "instance_termination_action_arg args1 = instance_termination_action_arg args2"
    and "custom_hostname_arg args1 = custom_hostname_arg args2"
    and "delete_protection_arg args1 = delete_protection_arg args2"
  shows "build_instance d z n args1 w = build_instance d z n args2 w"
  unfolding build_instance_def using assms by simp

text \<open>
  Claim C10. In \<^verbatim>\<open>create_instance\<close>, the empty string for \<^verbatim>\<open>subnetwork_link\<close>,
  \<^verbatim>\<open>internal_ip\<close> or \<^verbatim>\<open>external_ipv4\<close> behaves exactly as \<^verbatim>\<open>None\<close> does, since each is
  tested for truth and not for \<^verbatim>\<open>None\<close>: the whole call gives the same result, and with
  \<^verbatim>\<open>subnetwork_link=""\<close> the interface has no subnetwork, with \<^verbatim>\<open>internal_ip=""\<close> no
  internal address, and with \<^verbatim>\<open>external_access=True\<close> and \<^verbatim>\<open>external_ipv4=""\<close> the
  access config has no NAT address.
\<close>

theorem create_instance_empty_string_as_none:
  "create_instance d c p z n (args\<lparr>subnetwork_link_arg := Given (Some [])\<rparr>) w =
     create_instance d c p z n (args\<lparr>subnetwork_link_arg := Given None\<rparr>) w \<and>
   create_instance d c p z n (args\<lparr>internal_ip_arg := Given (Some [])\<rparr>) w =
     create_instance d c p z n (args\<lparr>internal_ip_arg := Given None\<rparr>) w \<and>
   create_instance d c p z n (args\<lparr>external_ipv4_arg := Given (Some [])\<rparr>) w =
     create_instance d c p z n (args\<lparr>external_ipv4_arg := Given None\<rparr>) w \<and>
   (\<exists>inst nif.
      built_instance d c p z n (args\<lparr>subnetwork_link_arg := Given (Some [])\<rparr>) w = Some inst \<and>
      network_interfaces inst = [nif] \<and> subnetwork nif = None) \<and>
   (\<exists>inst nif.
      built_instance d c p z n (args\<lparr>internal_ip_arg := Given (Some [])\<rparr>) w = Some inst \<and>
      network_interfaces inst = [nif] \<and> network_i_p nif = None) \<and>
   (\<exists>inst nif access.
      built_instance d c p z n
        (args\<lparr>external_access_arg := Given True, external_ipv4_arg := Given (Some [])\<rparr>) w =
        Some inst \<and>
      network_interfaces inst = [nif] \<and> access_configs nif = [access] \<and>
      nat_i_p access = None)"
proof -
  have "build_instance d z n (args\<lparr>subnetwork_link_arg := Given (Some [])\<rparr>) w =
        build_instance d z n (args\<lparr>subnetwork_link_arg := Given None\<rparr>) w"
    by (rule build_instance_network_args)
       (simp_all add: build_network_interface_empty_subnetwork)
  then have 1: "create_instance d c p z n (args\<lparr>subnetwork_link_arg := Given (Some [])\<rparr>) w =
     create_instance d c p z n (args\<lparr>subnetwork_link_arg := Given None\<rparr>) w"
    by (rule create_instance_cong_build)
  have "build_instance d z n (args\<lparr>internal_ip_arg := Given (Some [])\<rparr>) w =
        build_instance d z n (args\<lparr>internal_ip_arg := Given None\<rparr>) w"
    by (rule build_instance_network_args)
       (simp_all add: build_network_interface_empty_internal_ip)
  then have 2: "create_instance d c p z n (args\<lparr>internal_ip_arg := Given (Some [])\<rparr>) w =
     create_instance d c p z n (args\<lparr>internal_ip_arg := Given None\<rparr>) w"
    by (rule create_instance_cong_build)
  have "build_instance d z n (args\<lparr>external_ipv4_arg := Given (Some [])\<rparr>) w =
        build_instance d z n (args\<lparr>external_ipv4_arg := Given None\<rparr>) w"
    by (rule build_instance_network_args)
       (simp_all add: build_network_interface_empty_external_ipv4)
  then have 3: "create_instance d c p z n (args\<lparr>external_ipv4_arg := Given (Some [])\<rparr>) w =
     create_instance d c p z n (args\<lparr>external_ipv4_arg := Given None\<rparr>) w"
    by (rule create_instance_cong_build)
  have 4: "\<exists>inst nif.
      built_instance d c p z n (args\<lparr>subnetwork_link_arg := Given (Some [])\<rparr>) w = Some inst \<and>
      network_interfaces inst = [nif] \<and> subnetwork nif = None"
    by (simp add: built_instance_build build_network_interfaces build_subnetwork)
  have 5: "\<exists>inst nif.
      built_instance d c p z n (args\<lparr>internal_ip_arg := Given (Some [])\<rparr>) w = Some inst \<and>
      network_interfaces inst = [nif] \<and> network_i_p nif = None"
    by (simp add: built_instance_build build_network_interfaces build_network_i_p)
  have 6: "\<exists>inst nif access.
      built_instance d c p z n
        (args\<lparr>external_access_arg := Given True, external_ipv4_arg := Given (Some [])\<rparr>) w =
        Some inst \<and>
      network_interfaces inst = [nif] \<and> access_configs nif = [access] \<and>
      nat_i_p access = None"
    by (simp add: built_instance_build build_network_interfaces build_access_configs)
  from 1 2 3 4 5 6 show ?thesis by blast
qed

theorem create_instance_empty_string_as_none_witness:
  "create_instance 0 example_client ''project'' ''us-central1-c'' ''vm''
     (no_args\<lparr>subnetwork_link_arg := Given (Some [])\<rparr>) io_empty =
   create_instance 0 example_client ''project'' ''us-central1-c'' ''vm''
     (no_args\<lparr>subnetwork_link_arg := Given None\<rparr>) io_empty \<and>
   map_option (map (map nat_i_p \<circ> access_configs) \<circ> network_interfaces)
     (built_instance 0 example_client ''project'' ''us-central1-c'' ''vm''
        (no_args\<lparr>external_access_arg := Given True, external_ipv4_arg := Given (Some [])\<rparr>)
        io_empty) = Some [ [None] ]"
  using create_instance_empty_string_as_none
      [of 0 example_client "''project''" "''us-central1-c''" "''vm''" no_args io_empty]
  by auto

text \<open>
  \<^verbatim>\<open>custom_hostname\<close> is outside that claim: it is tested with \<^verbatim>\<open>is not None\<close>, and
  an empty string becomes the hostname.
\<close>

lemma custom_hostname_empty_string_kept:
  "hostname (fst (build_instance d z n (args\<lparr>custom_hostname_arg := Given (Some [])\<rparr>) w)) =
     Some []"
  by (simp add: build_instance_def Let_def Instance_def split: prod.splits option.splits)

end
